theory Spec2Isabelle
  imports Main
begin

section \<open>Data model of the review session (src/commands/review.ts, src/api.ts)\<close>

text \<open>
  JavaScript numbers that hold indices, offsets and counters are modelled as \<open>int\<close>;
  strings as \<open>string\<close>. Objects mutated in place are passed and returned explicitly.
\<close>

record ReviewComment =
  comment_id :: string
  file_path :: string
  line_start :: int
  line_end :: int
  severity :: string
  confidence :: string
  title :: string
  content :: string
  created_at :: string

record FileGroup =
  filePath :: string
  comments :: "ReviewComment list"
  expanded :: bool

datatype Mode = ListMode | DetailMode

datatype Panel = LeftPanel | RightPanel

text \<open>
  The state's \<open>status\<close> is declared as running, completed or failed; the poll handler
  stores the service's answer through a cast, so \<open>interrupted\<close> can be stored as well.
\<close>

datatype Status = Running | Completed | Failed | Interrupted

record ReviewState =
  dataId :: "string option"
  mode :: Mode
  focusedPanel :: Panel
  files :: "FileGroup list"
  selectedFileIndex :: int
  selectedCommentIndex :: int
  detailScrollOffset :: int
  leftPanelScrollOffset :: int
  totalComments :: int
  resolvedComments :: int
  status :: Status
  spinnerFrame :: int

text \<open>\<open>xs[i]\<close> of JavaScript: \<open>undefined\<close> outside the array.\<close>

definition js_index :: "'a list \<Rightarrow> int \<Rightarrow> 'a option" where
  "js_index xs i = (if 0 \<le> i \<and> i < int (length xs) then Some (xs ! nat i) else None)"

section \<open>Merging polled comments (addComments, addCommentsToState)\<close>

text \<open>\<open>Array.prototype.findIndex\<close>: the position of the first element satisfying \<open>P\<close>.\<close>

fun findIndex :: "('a \<Rightarrow> bool) \<Rightarrow> 'a list \<Rightarrow> nat option" where
  "findIndex P [] = None"
| "findIndex P (x # xs) =
     (if P x then Some 0 else map_option Suc (findIndex P xs))"

text \<open>
  One round of the \<open>forEach\<close> body of \<open>addComments\<close> on the pair
  \<open>(state.files, state.totalComments)\<close>: look the group up by path (\<open>find\<close> returns the
  first one), create and push it when absent, then push the comment unless a comment with
  the same \<open>line_start\<close> and \<open>title\<close> is already in the group.
\<close>

definition sameKey :: "ReviewComment \<Rightarrow> ReviewComment \<Rightarrow> bool" where
  "sameKey c x \<longleftrightarrow> line_start x = line_start c \<and> title x = title c"

definition mergeComment :: "ReviewComment \<Rightarrow> FileGroup list \<times> int \<Rightarrow> FileGroup list \<times> int" where
  "mergeComment c ft =
     (let fs = fst ft; total = snd ft;
          found = findIndex (\<lambda>f. filePath f = file_path c) fs;
          fs1 = (case found of
                   None \<Rightarrow> fs @ [\<lparr>filePath = file_path c, comments = [], expanded = True\<rparr>]
                 | Some _ \<Rightarrow> fs);
          gi = (case found of None \<Rightarrow> length fs | Some i \<Rightarrow> i);
          fileGroup = fs1 ! gi;
          exists = list_ex (sameKey c) (comments fileGroup)
      in if \<not> exists
         then (fs1[gi := fileGroup\<lparr>comments := comments fileGroup @ [c]\<rparr>], total + 1)
         else (fs1, total))"

definition addComment :: "ReviewComment \<Rightarrow> ReviewState \<Rightarrow> ReviewState" where
  "addComment c st =
     (let r = mergeComment c (files st, totalComments st)
      in st\<lparr>files := fst r, totalComments := snd r\<rparr>)"

definition addComments :: "ReviewComment list \<Rightarrow> ReviewState \<Rightarrow> ReviewState" where
  "addComments cs st = fold addComment cs st"

text \<open>The older dashboard of src/ui.ts keeps a smaller state and merges the same way.\<close>

record UiReviewState =
  ui_files :: "FileGroup list"
  ui_totalComments :: int
  ui_resolvedComments :: int
  ui_selectedFileIndex :: int
  ui_selectedCommentIndex :: int
  ui_showingDetail :: bool
  ui_status :: Status

definition addCommentsToState :: "UiReviewState \<Rightarrow> ReviewComment list \<Rightarrow> UiReviewState" where
  "addCommentsToState st newComments =
     fold (\<lambda>c s. let r = mergeComment c (ui_files s, ui_totalComments s)
                 in s\<lparr>ui_files := fst r, ui_totalComments := snd r\<rparr>) newComments st"

text \<open>The group \<open>find\<close> returns for a path.\<close>

definition findGroup :: "string \<Rightarrow> FileGroup list \<Rightarrow> FileGroup option" where
  "findGroup p fs = find (\<lambda>f. filePath f = p) fs"

text \<open>A comment is a duplicate when its path's group holds a comment with the same key.\<close>

definition isDuplicate :: "ReviewComment \<Rightarrow> FileGroup list \<Rightarrow> bool" where
  "isDuplicate c fs =
     (case findGroup (file_path c) fs of
        None \<Rightarrow> False
      | Some g \<Rightarrow> (\<exists>x \<in> set (comments g). sameKey c x))"

text \<open>The session state right after a review is submitted (\<open>runReviewSession\<close>).\<close>

definition initialState :: "string \<Rightarrow> ReviewState" where
  "initialState d =
     \<lparr>dataId = Some d, mode = ListMode, focusedPanel = LeftPanel, files = [],
      selectedFileIndex = 0, selectedCommentIndex = -1, detailScrollOffset = 0,
      leftPanelScrollOffset = 0, totalComments = 0, resolvedComments = 0,
      status = Running, spinnerFrame = 0\<rparr>"

section \<open>Navigation (navigateUp, navigateDown, handleKeypress)\<close>


text \<open>
  \<open>navigateDown\<close>. The function returns the state unchanged when no file is selected;
  otherwise it moves the cursor and, in detail mode, resets the detail scroll.
\<close>

definition navigateDown :: "ReviewState \<Rightarrow> ReviewState" where
  "navigateDown state =
     (case js_index (files state) (selectedFileIndex state) of
        None \<Rightarrow> state
      | Some file \<Rightarrow>
          (let s1 =
             (if selectedCommentIndex state = -1 then
                (if expanded file \<and> length (comments file) > 0 then
                   state\<lparr>selectedCommentIndex := 0\<rparr>
                 else if selectedFileIndex state < int (length (files state)) - 1 then
                   state\<lparr>selectedFileIndex := selectedFileIndex state + 1,
                         selectedCommentIndex := -1\<rparr>
                 else state)
              else if selectedCommentIndex state < int (length (comments file)) - 1 then
                state\<lparr>selectedCommentIndex := selectedCommentIndex state + 1\<rparr>
              else if selectedFileIndex state < int (length (files state)) - 1 then
                state\<lparr>selectedFileIndex := selectedFileIndex state + 1,
                      selectedCommentIndex := -1\<rparr>
              else state)
           in if mode s1 = DetailMode then s1\<lparr>detailScrollOffset := 0\<rparr> else s1))"

text \<open>
  \<open>navigateUp\<close>. Reading \<open>prevFile.expanded\<close> throws a TypeError when the decremented
  file index is outside \<open>files\<close>; the state has then already been mutated, and the
  result is \<open>Inl\<close> of that state.
\<close>

definition resetDetailScroll :: "ReviewState \<Rightarrow> ReviewState" where
  "resetDetailScroll s = (if mode s = DetailMode then s\<lparr>detailScrollOffset := 0\<rparr> else s)"

definition navigateUp :: "ReviewState \<Rightarrow> ReviewState + ReviewState" where
  "navigateUp state =
     (if selectedCommentIndex state > 0 then
        Inr (resetDetailScroll (state\<lparr>selectedCommentIndex := selectedCommentIndex state - 1\<rparr>))
      else if selectedCommentIndex state = 0 then
        Inr (resetDetailScroll (state\<lparr>selectedCommentIndex := -1\<rparr>))
      else if selectedFileIndex state > 0 then
        (let s1 = state\<lparr>selectedFileIndex := selectedFileIndex state - 1\<rparr>
         in case js_index (files s1) (selectedFileIndex s1) of
              None \<Rightarrow> Inl s1
            | Some prevFile \<Rightarrow>
                Inr (resetDetailScroll
                  (if expanded prevFile \<and> length (comments prevFile) > 0
                   then s1\<lparr>selectedCommentIndex := int (length (comments prevFile)) - 1\<rparr>
                   else s1\<lparr>selectedCommentIndex := -1\<rparr>)))
      else Inr (resetDetailScroll state))"

text \<open>A decoded key of \<open>readline\<close>: its name (possibly undefined), the control flag and
  the raw sequence.\<close>

record Key =
  key_name :: "string option"
  key_ctrl :: bool
  key_sequence :: string

datatype Action = ActRender | ActQuit | ActCopy | ActNone

text \<open>
  \<open>handleKeypress\<close> is a chain of guarded blocks, each of which may return. Every block
  is a function to an option: \<open>None\<close> means that control falls through to the next block.
  The result is \<open>Inl\<close> of the state when \<open>navigateUp\<close> throws.
\<close>

type_synonym KeyResult = "ReviewState + ReviewState \<times> Action"

definition isUpKey :: "Key \<Rightarrow> bool" where
  "isUpKey k \<longleftrightarrow> key_name k = Some ''up'' \<or> key_name k = Some ''k''"

definition isDownKey :: "Key \<Rightarrow> bool" where
  "isDownKey k \<longleftrightarrow> key_name k = Some ''down'' \<or> key_name k = Some ''j''"

definition quitBlock :: "ReviewState \<Rightarrow> Key \<Rightarrow> KeyResult option" where
  "quitBlock state k =
     (if key_name k = Some ''q'' \<or> (key_ctrl k \<and> key_name k = Some ''c'')
      then Some (Inr (state, ActQuit)) else None)"

definition tabBlock :: "ReviewState \<Rightarrow> Key \<Rightarrow> KeyResult option" where
  "tabBlock state k =
     (if mode state = DetailMode \<and> key_name k = Some ''tab''
      then Some (Inr (state\<lparr>focusedPanel :=
                   (if focusedPanel state = LeftPanel then RightPanel else LeftPanel)\<rparr>, ActRender))
      else None)"

definition cursorMoved :: "ReviewState \<Rightarrow> int \<Rightarrow> int \<Rightarrow> ReviewState" where
  "cursorMoved newState prevCommentIndex prevFileIndex =
     (if mode newState = DetailMode \<and>
         \<not> (selectedCommentIndex newState = prevCommentIndex \<and>
            selectedFileIndex newState = prevFileIndex)
      then newState\<lparr>detailScrollOffset := 0\<rparr> else newState)"

definition navigateBlock :: "ReviewState \<Rightarrow> Key \<Rightarrow> KeyResult option" where
  "navigateBlock state k =
     (if mode state = ListMode \<or> (mode state = DetailMode \<and> focusedPanel state = LeftPanel) then
        (if mode state = DetailMode \<and> focusedPanel state = LeftPanel \<and> key_ctrl k \<and> isUpKey k then
           Some (Inr (state\<lparr>leftPanelScrollOffset := max 0 (leftPanelScrollOffset state - 1)\<rparr>,
                      ActRender))
         else if mode state = DetailMode \<and> focusedPanel state = LeftPanel \<and> key_ctrl k \<and> isDownKey k then
           Some (Inr (state\<lparr>leftPanelScrollOffset := min 1000 (leftPanelScrollOffset state + 1)\<rparr>,
                      ActRender))
         else if isUpKey k then
           (case navigateUp state of
              Inl s \<Rightarrow> Some (Inl s)
            | Inr newState \<Rightarrow>
                Some (Inr (cursorMoved newState (selectedCommentIndex state) (selectedFileIndex state),
                           ActRender)))
         else if isDownKey k then
           Some (Inr (cursorMoved (navigateDown state) (selectedCommentIndex state)
                        (selectedFileIndex state), ActRender))
         else None)
      else None)"

definition arrowScrollBlock :: "ReviewState \<Rightarrow> Key \<Rightarrow> KeyResult option" where
  "arrowScrollBlock state k =
     (if mode state = DetailMode then
        (if focusedPanel state = RightPanel then
           (if isUpKey k then
              Some (Inr (state\<lparr>detailScrollOffset := max 0 (detailScrollOffset state - 1)\<rparr>, ActRender))
            else if isDownKey k then
              Some (Inr (state\<lparr>detailScrollOffset := detailScrollOffset state + 1\<rparr>, ActRender))
            else None)
         else
           (if isUpKey k then
              Some (Inr (state\<lparr>leftPanelScrollOffset := max 0 (leftPanelScrollOffset state - 1)\<rparr>,
                         ActRender))
            else if isDownKey k then
              Some (Inr (state\<lparr>leftPanelScrollOffset := leftPanelScrollOffset state + 1\<rparr>, ActRender))
            else None))
      else None)"

definition enterDetailBlock :: "ReviewState \<Rightarrow> Key \<Rightarrow> KeyResult option" where
  "enterDetailBlock state k =
     (if (key_name k = Some ''right'' \<or> key_name k = Some ''return'') \<and>
         selectedCommentIndex state \<ge> 0 \<and> mode state = ListMode
      then Some (Inr (state\<lparr>mode := DetailMode, focusedPanel := RightPanel,
                            detailScrollOffset := 0, leftPanelScrollOffset := 0\<rparr>, ActRender))
      else None)"

definition exitDetailBlock :: "ReviewState \<Rightarrow> Key \<Rightarrow> KeyResult option" where
  "exitDetailBlock state k =
     (if (key_name k = Some ''left'' \<or> key_name k = Some ''escape'') \<and> mode state = DetailMode then
        (if focusedPanel state = RightPanel
         then Some (Inr (state\<lparr>focusedPanel := LeftPanel\<rparr>, ActRender))
         else Some (Inr (state\<lparr>mode := ListMode\<rparr>, ActRender)))
      else None)"

definition toggleExpandBlock :: "ReviewState \<Rightarrow> Key \<Rightarrow> KeyResult option" where
  "toggleExpandBlock state k =
     (if (mode state = ListMode \<or> (mode state = DetailMode \<and> focusedPanel state = LeftPanel)) \<and>
         key_name k = Some ''return'' \<and> selectedCommentIndex state = -1 then
        (case js_index (files state) (selectedFileIndex state) of
           None \<Rightarrow> Some (Inr (state, ActRender))
         | Some file \<Rightarrow>
             (let file' = file\<lparr>expanded := \<not> expanded file\<rparr>;
                  s1 = state\<lparr>files := (files state)[nat (selectedFileIndex state) := file']\<rparr>
              in Some (Inr ((if \<not> expanded file' then s1\<lparr>selectedCommentIndex := -1\<rparr> else s1),
                            ActRender))))
      else None)"

definition pageScrollBlock :: "ReviewState \<Rightarrow> Key \<Rightarrow> KeyResult option" where
  "pageScrollBlock state k =
     (if mode state = DetailMode then
        (if key_name k = Some ''pagedown'' \<or> (key_ctrl k \<and> key_name k = Some ''d'') then
           (if focusedPanel state = RightPanel
            then Some (Inr (state\<lparr>detailScrollOffset := detailScrollOffset state + 10\<rparr>, ActRender))
            else Some (Inr (state\<lparr>leftPanelScrollOffset := leftPanelScrollOffset state + 10\<rparr>,
                            ActRender)))
         else if key_name k = Some ''pageup'' \<or> (key_ctrl k \<and> key_name k = Some ''u'') then
           (if focusedPanel state = RightPanel
            then Some (Inr (state\<lparr>detailScrollOffset := max 0 (detailScrollOffset state - 10)\<rparr>,
                            ActRender))
            else Some (Inr (state\<lparr>leftPanelScrollOffset := max 0 (leftPanelScrollOffset state - 10)\<rparr>,
                            ActRender)))
         else None)
      else None)"

definition copyBlock :: "ReviewState \<Rightarrow> Key \<Rightarrow> KeyResult option" where
  "copyBlock state k = (if key_name k = Some ''c'' then Some (Inr (state, ActCopy)) else None)"

fun firstReturn :: "(ReviewState \<Rightarrow> Key \<Rightarrow> KeyResult option) list \<Rightarrow> ReviewState \<Rightarrow> Key \<Rightarrow> KeyResult" where
  "firstReturn [] state k = Inr (state, ActNone)"
| "firstReturn (b # bs) state k =
     (case b state k of Some r \<Rightarrow> r | None \<Rightarrow> firstReturn bs state k)"

definition handleKeypress :: "ReviewState \<Rightarrow> Key option \<Rightarrow> KeyResult" where
  "handleKeypress state key =
     (case key of
        None \<Rightarrow> Inr (state, ActNone)
      | Some k \<Rightarrow>
          firstReturn [quitBlock, tabBlock, navigateBlock, arrowScrollBlock, enterDetailBlock,
                       exitDetailBlock, toggleExpandBlock, pageScrollBlock, copyBlock] state k)"








section \<open>Text layout utilities (stripAnsi, truncate, wordWrap)\<close>

text \<open>
  A JavaScript string is modelled as a list of its code units, restricted to the units
  below 256 (\<open>char\<close>). The character classes of the regular expressions follow ECMAScript:
  \<open>\s\<close> is white space and the line terminators, \<open>\w\<close> is \<open>[A-Za-z0-9_]\<close>, \<open>\d\<close> is
  \<open>[0-9]\<close>, and \<open>.\<close> excludes the line terminators.
\<close>

definition ESC :: char where
  "ESC = CHR 0x1B"

definition NL :: char where
  "NL = CHR 0x0A"

definition is_space :: "char \<Rightarrow> bool" where
  "is_space c \<longleftrightarrow> c \<in> {CHR 0x09, CHR 0x0A, CHR 0x0B, CHR 0x0C, CHR 0x0D, CHR 0x20, CHR 0xA0}"

definition is_digit :: "char \<Rightarrow> bool" where
  "is_digit c \<longleftrightarrow> c \<in> set ''0123456789''"

definition is_word :: "char \<Rightarrow> bool" where
  "is_word c \<longleftrightarrow>
     c \<in> set ''abcdefghijklmnopqrstuvwxyzABCDEFGHIJKLMNOPQRSTUVWXYZ0123456789_''"

definition is_line_terminator :: "char \<Rightarrow> bool" where
  "is_line_terminator c \<longleftrightarrow> c = CHR 0x0A \<or> c = CHR 0x0D"

text \<open>The parameter bytes of a colour sequence: \<open>[0-9;]\<close>.\<close>

definition is_sgr_param :: "char \<Rightarrow> bool" where
  "is_sgr_param c \<longleftrightarrow> is_digit c \<or> c = CHR '';''"

text \<open>
  A match of \<open>/\x1B\[[0-9;]*m/\<close> at the head of a string; the result is the text after
  the match. The class does not contain \<open>m\<close>, so the greedy star never gives a byte back.
\<close>

definition sgrMatch :: "string \<Rightarrow> string option" where
  "sgrMatch s =
     (case s of
        c1 # c2 # r \<Rightarrow>
          (if c1 = ESC \<and> c2 = CHR ''['' then
             (case dropWhile is_sgr_param r of
                m # r' \<Rightarrow> if m = CHR ''m'' then Some r' else None
              | [] \<Rightarrow> None)
           else None)
      | _ \<Rightarrow> None)"

text \<open>
  \<open>str.replace(re, '')\<close> with the global flag, \<open>m\<close> giving the text after a match of
  \<open>re\<close> at the head: matches are removed from left to right; after an empty match the
  scan moves on by one unit.
\<close>

fun removeAll :: "(string \<Rightarrow> string option) \<Rightarrow> string \<Rightarrow> string" where
  "removeAll m [] = []"
| "removeAll m (c # cs) =
     (case m (c # cs) of
        None \<Rightarrow> c # removeAll m cs
      | Some r \<Rightarrow> if length r \<le> length cs then removeAll m r
                  else c # removeAll m cs)"

definition stripAnsi :: "string \<Rightarrow> string" where
  "stripAnsi str = removeAll sgrMatch str"

definition visibleLength :: "string \<Rightarrow> int" where
  "visibleLength str = int (length (stripAnsi str))"

text \<open>
  The loop of \<open>truncate\<close>: \<open>cs\<close> is the rest of \<open>str\<close> from index \<open>i\<close>, and the loop state
  is \<open>(result, visibleCount, inAnsi, ansiStart)\<close>.
\<close>

fun truncateLoop :: "int \<Rightarrow> string \<Rightarrow> nat \<Rightarrow> string \<times> int \<times> bool \<times> int
    \<Rightarrow> string \<times> int \<times> bool \<times> int" where
  "truncateLoop maxLen [] i st = st"
| "truncateLoop maxLen (c # cs) i (result, visibleCount, inAnsi, ansiStart) =
     (if visibleCount < maxLen - 3 then
        (if c = ESC then
           truncateLoop maxLen cs (Suc i) (result @ [c], visibleCount, True, int i)
         else if inAnsi then
           (if c = CHR ''m''
            then truncateLoop maxLen cs (Suc i) (result @ [c], visibleCount, False, -1)
            else truncateLoop maxLen cs (Suc i) (result @ [c], visibleCount, inAnsi, ansiStart))
         else truncateLoop maxLen cs (Suc i) (result @ [c], visibleCount + 1, inAnsi, ansiStart))
      else (result, visibleCount, inAnsi, ansiStart))"

text \<open>\<open>s.substring(0, n)\<close>: a negative \<open>n\<close> counts as 0, one past the end as the length.\<close>

definition substring0 :: "string \<Rightarrow> int \<Rightarrow> string" where
  "substring0 s n = take (nat n) s"

text \<open>\<open>truncate\<close> (named \<open>truncate_str\<close> here: records already have a \<open>truncate\<close>).\<close>

definition truncate_str :: "string \<Rightarrow> int \<Rightarrow> string" where
  "truncate_str str maxLen =
     (if visibleLength str \<le> maxLen then str
      else
        (case truncateLoop maxLen str 0 ([], 0, False, -1) of
           (result, visibleCount, inAnsi, ansiStart) \<Rightarrow>
             (if inAnsi \<and> ansiStart \<ge> 0 then
                (let result1 = substring0 result ansiStart;
                     visibleCount1 = visibleLength result1;
                     result2 =
                       (if visibleCount1 > maxLen - 3
                        then substring0 result1
                               (int (length result1) - (visibleCount1 - (maxLen - 3)))
                        else result1)
                 in result2 @ ''...'')
              else result @ ''...'')))"

definition truncateLine :: "string \<Rightarrow> int \<Rightarrow> string" where
  "truncateLine str maxWidth =
     (if visibleLength str \<le> maxWidth then str else truncate_str str maxWidth)"






section \<open>Regular expressions of the comment parser\<close>

text \<open>
  Each regular expression of the source is written as a matcher: a function from the text
  at the current position to \<open>None\<close> (no match here) or \<open>Some\<close> of what the expression
  yields. The rest of an expression is passed to a quantifier as its continuation, so
  that a greedy or lazy quantifier backtracks exactly as the expression does.
\<close>

text \<open>The \<open>i\<close> flag: two code units match when their upper-case forms agree.\<close>

definition toUpperAscii :: "char \<Rightarrow> char" where
  "toUpperAscii c =
     (case map_of (zip ''abcdefghijklmnopqrstuvwxyz'' ''ABCDEFGHIJKLMNOPQRSTUVWXYZ'') c of
        Some u \<Rightarrow> u
      | None \<Rightarrow> c)"

definition ci_eq :: "char \<Rightarrow> char \<Rightarrow> bool" where
  "ci_eq p c \<longleftrightarrow> toUpperAscii p = toUpperAscii c"

text \<open>A literal at the head of the text; the result is the text after it.\<close>

fun matchLit :: "(char \<Rightarrow> char \<Rightarrow> bool) \<Rightarrow> string \<Rightarrow> string \<Rightarrow> string option" where
  "matchLit eq [] s = Some s"
| "matchLit eq (p # ps) [] = None"
| "matchLit eq (p # ps) (c # cs) = (if eq p c then matchLit eq ps cs else None)"

definition lit :: "string \<Rightarrow> string \<Rightarrow> string option" where
  "lit pat s = matchLit (=) pat s"

definition litCI :: "string \<Rightarrow> string \<Rightarrow> string option" where
  "litCI pat s = matchLit ci_eq pat s"

text \<open>
  The leftmost match of \<open>k\<close> in the text, with the text before it: the scan of
  \<open>String.prototype.match\<close> for the start of a match, and equally a lazy \<open>[\s\S]*?\<close> in
  front of \<open>k\<close>.
\<close>

fun searchFirst :: "(string \<Rightarrow> 'a option) \<Rightarrow> string \<Rightarrow> (string \<times> 'a) option" where
  "searchFirst k [] = map_option (Pair []) (k [])"
| "searchFirst k (c # cs) =
     (case k (c # cs) of
        Some r \<Rightarrow> Some ([], r)
      | None \<Rightarrow> map_option (\<lambda>(pre, r). (c # pre, r)) (searchFirst k cs))"

text \<open>A greedy \<open>P*\<close> in front of \<open>k\<close>: as many units as possible, fewer when \<open>k\<close> fails.\<close>

fun greedyStar :: "(char \<Rightarrow> bool) \<Rightarrow> (string \<Rightarrow> 'a option) \<Rightarrow> string \<Rightarrow> 'a option" where
  "greedyStar P k [] = k []"
| "greedyStar P k (c # cs) =
     (if P c then (case greedyStar P k cs of Some r \<Rightarrow> Some r | None \<Rightarrow> k (c # cs))
      else k (c # cs))"

text \<open>A lazy \<open>P*?\<close> in front of \<open>k\<close>: as few units as possible.\<close>

fun lazyStar :: "(char \<Rightarrow> bool) \<Rightarrow> (string \<Rightarrow> 'a option) \<Rightarrow> string \<Rightarrow> 'a option" where
  "lazyStar P k [] = k []"
| "lazyStar P k (c # cs) =
     (case k (c # cs) of
        Some r \<Rightarrow> Some r
      | None \<Rightarrow> if P c then lazyStar P k cs else None)"

text \<open>\<open>x\<close> followed by \<open>k\<close>; an optional \<open>(?:x)?\<close> followed by \<open>k\<close>; \<open>(?:x|y)\<close> followed by \<open>k\<close>.\<close>

definition andThen :: "(string \<Rightarrow> string option) \<Rightarrow> (string \<Rightarrow> 'a option) \<Rightarrow> string \<Rightarrow> 'a option" where
  "andThen x k s = (case x s of None \<Rightarrow> None | Some r \<Rightarrow> k r)"

definition optional :: "(string \<Rightarrow> string option) \<Rightarrow> (string \<Rightarrow> 'a option) \<Rightarrow> string \<Rightarrow> 'a option" where
  "optional x k s =
     (case x s of
        None \<Rightarrow> k s
      | Some r \<Rightarrow> (case k r of Some v \<Rightarrow> Some v | None \<Rightarrow> k s))"

definition either :: "(string \<Rightarrow> string option) \<Rightarrow> (string \<Rightarrow> string option) \<Rightarrow>
    (string \<Rightarrow> 'a option) \<Rightarrow> string \<Rightarrow> 'a option" where
  "either x y k s = (case andThen x k s of Some v \<Rightarrow> Some v | None \<Rightarrow> andThen y k s)"

text \<open>A capturing \<open>(P+)\<close> at the end of an expression.\<close>

definition capturePlus :: "(char \<Rightarrow> bool) \<Rightarrow> string \<Rightarrow> string option" where
  "capturePlus P s = (let w = takeWhile P s in if w = [] then None else Some w)"

text \<open>A capturing \<open>([\s\S]*?)\<close> followed by \<open>k\<close>, at the end of an expression.\<close>

definition captureUntil :: "(string \<Rightarrow> 'a option) \<Rightarrow> string \<Rightarrow> string option" where
  "captureUntil k s = map_option fst (searchFirst k s)"

text \<open>\<open>/\*\*Severity\*\*:\s*(\w+)/i\<close> and its siblings; \<open>/\*\*Title\*\*:\s*([^\n]+)/i\<close>.\<close>

definition severityRe :: "string \<Rightarrow> string option" where
  "severityRe = andThen (litCI ''**Severity**:'') (greedyStar is_space (capturePlus is_word))"

definition lineStartRe :: "string \<Rightarrow> string option" where
  "lineStartRe = andThen (litCI ''**Line_Start**:'') (greedyStar is_space (capturePlus is_digit))"

definition lineEndRe :: "string \<Rightarrow> string option" where
  "lineEndRe = andThen (litCI ''**Line_End**:'') (greedyStar is_space (capturePlus is_digit))"

definition titleRe :: "string \<Rightarrow> string option" where
  "titleRe = andThen (litCI ''**Title**:'') (greedyStar is_space (capturePlus (\<lambda>c. c \<noteq> NL)))"

text \<open>\<open>/<details>\s*<summary>\s*NAME\s*<\/summary>([\s\S]*?)<\/details>/i\<close>.\<close>

definition detailsSectionRe :: "string \<Rightarrow> string \<Rightarrow> string option" where
  "detailsSectionRe name =
     andThen (litCI ''<details>'') (greedyStar is_space
       (andThen (litCI ''<summary>'') (greedyStar is_space
         (andThen (litCI name) (greedyStar is_space
           (andThen (litCI ''</summary>'') (captureUntil (litCI ''</details>''))))))))"

text \<open>The fence \<open>/```(?:suggestion)?\s*([\s\S]*?)```/\<close> inside the prompt section.\<close>

definition innerCodeBlockRe :: "string \<Rightarrow> string option" where
  "innerCodeBlockRe =
     andThen (lit ''```'') (optional (lit ''suggestion'')
       (greedyStar is_space (captureUntil (lit ''```''))))"

text \<open>\<open>/\*\*Copy this prompt.*?\*\*[\s\S]*?:/i\<close>; the result is the text after the match.\<close>

definition copyHeaderRe :: "string \<Rightarrow> string option" where
  "copyHeaderRe =
     andThen (litCI ''**Copy this prompt'')
       (lazyStar (\<lambda>c. \<not> is_line_terminator c)
         (andThen (litCI ''**'') (\<lambda>s. map_option snd (searchFirst (lit '':'') s))))"

text \<open>
  The older inline marker,
  \<open>/\*\*Prompt (?:for|to) (?:Fix with )?AI[^*]*\*\*:?\s*([\s\S]*?)(?:\n\n##|\n\n\*\*|$)/i\<close>,
  used by \<open>parseCommentMetadata\<close> as a fallback and by the copy handler of the session.
\<close>

definition promptEnd :: "string \<Rightarrow> unit option" where
  "promptEnd s =
     (case lit [NL, NL, CHR ''#'', CHR ''#''] s of
        Some _ \<Rightarrow> Some ()
      | None \<Rightarrow>
          (case lit [NL, NL, CHR ''*'', CHR ''*''] s of
             Some _ \<Rightarrow> Some ()
           | None \<Rightarrow> if s = [] then Some () else None))"

definition oldPromptRe :: "string \<Rightarrow> string option" where
  "oldPromptRe =
     andThen (litCI ''**Prompt '')
       (either (litCI ''for'') (litCI ''to'')
         (andThen (litCI '' '')
           (optional (litCI ''Fix with '')
             (andThen (litCI ''AI'')
               (greedyStar (\<lambda>c. c \<noteq> CHR ''*'')
                 (andThen (litCI ''**'')
                   (optional (lit '':'')
                     (greedyStar is_space (captureUntil promptEnd)))))))))"

text \<open>The first match of an expression in a text: its capture.\<close>

definition firstMatch :: "(string \<Rightarrow> 'a option) \<Rightarrow> string \<Rightarrow> 'a option" where
  "firstMatch re s = map_option snd (searchFirst re s)"

text \<open>\<open>/\*\*NAME\*\*:[^\n]*\n?/gi\<close> and \<open>/<details>[\s\S]*?<\/details>/gi\<close>, for removal.\<close>

definition metaLineRe :: "string \<Rightarrow> string \<Rightarrow> string option" where
  "metaLineRe name =
     andThen (litCI (''**'' @ name @ ''**:''))
       (greedyStar (\<lambda>c. c \<noteq> NL) (optional (lit [NL]) Some))"

definition detailsBlockRe :: "string \<Rightarrow> string option" where
  "detailsBlockRe =
     andThen (litCI ''<details>'') (\<lambda>s. map_option snd (searchFirst (litCI ''</details>'') s))"

section \<open>The comment parser (parseCommentMetadata)\<close>

definition trim :: "string \<Rightarrow> string" where
  "trim s = rev (dropWhile is_space (rev (dropWhile is_space s)))"

text \<open>\<open>s.split('\n')\<close>.\<close>

fun splitOn :: "char \<Rightarrow> string \<Rightarrow> string list" where
  "splitOn d [] = [[]]"
| "splitOn d (c # cs) =
     (if c = d then [] # splitOn d cs
      else (case splitOn d cs of p # ps \<Rightarrow> (c # p) # ps | [] \<Rightarrow> [[c]]))"

text \<open>\<open>parseInt\<close> of a string of decimal digits.\<close>

definition digitValue :: "char \<Rightarrow> int" where
  "digitValue c = int (of_char c) - 48"

definition parseDigits :: "string \<Rightarrow> int" where
  "parseDigits ds = fold (\<lambda>c n. 10 * n + digitValue c) ds 0"

text \<open>\<open>s.replace(re, '')\<close> without the global flag: the first match is removed.\<close>

definition removeFirst :: "(string \<Rightarrow> string option) \<Rightarrow> string \<Rightarrow> string" where
  "removeFirst re s = (case searchFirst re s of None \<Rightarrow> s | Some (pre, rest) \<Rightarrow> pre @ rest)"

record ParsedComment =
  p_title :: string
  p_severity :: string
  p_lineStart :: int
  p_lineEnd :: int
  p_description :: string
  p_codeBlock :: string
  p_aiPrompt :: string

definition extractCodeBlock :: "string \<Rightarrow> string" where
  "extractCodeBlock raw =
     (case firstMatch (detailsSectionRe ''Suggested Fix'') raw of
        Some inner \<Rightarrow> trim inner
      | None \<Rightarrow> [])"

definition extractAiPrompt :: "string \<Rightarrow> string" where
  "extractAiPrompt raw =
     (case firstMatch (detailsSectionRe ''Prompt for AI'') raw of
        Some inner \<Rightarrow>
          (case firstMatch innerCodeBlockRe inner of
             Some code \<Rightarrow> trim code
           | None \<Rightarrow> trim (removeFirst copyHeaderRe inner))
      | None \<Rightarrow>
          (case firstMatch oldPromptRe raw of
             Some p \<Rightarrow> trim p
           | None \<Rightarrow> []))"

definition extractDescription :: "string \<Rightarrow> string" where
  "extractDescription raw =
     trim
       (removeAll detailsBlockRe
       (removeAll (metaLineRe ''Title'')
       (removeAll (metaLineRe ''Confidence'')
       (removeAll (metaLineRe ''Severity'')
       (removeAll (metaLineRe ''Line_End'')
       (removeAll (metaLineRe ''Line_Start'')
       (removeAll (metaLineRe ''File'')
       (removeAll (lit ''[PR_COMMENT_END]'')
       (removeAll (lit ''[PR_COMMENT_START]'') raw)))))))))"

text \<open>The title when no \<open>Title\<close> marker matched: derived from the description.\<close>

definition deriveTitle :: "string \<Rightarrow> string" where
  "deriveTitle description =
     (let firstLine = (case find (\<lambda>l. length (trim l) > 0) (splitOn NL description) of
                         Some l \<Rightarrow> l
                       | None \<Rightarrow> [])
      in if length firstLine > 60 then take 57 firstLine @ ''...'' else firstLine)"

definition parseCommentMetadata :: "string \<Rightarrow> ParsedComment" where
  "parseCommentMetadata raw =
     (let severityMatch = firstMatch severityRe raw;
          lineStartMatch = firstMatch lineStartRe raw;
          lineEndMatch = firstMatch lineEndRe raw;
          titleMatch = firstMatch titleRe raw;
          codeBlock = extractCodeBlock raw;
          aiPrompt = extractAiPrompt raw;
          description = extractDescription raw;
          title0 = (case titleMatch of Some t \<Rightarrow> t | None \<Rightarrow> []);
          title1 = (if title0 = [] \<and> description \<noteq> [] then deriveTitle description else title0);
          title2 = (if title1 = [] then ''Issue Identified'' else title1)
      in \<lparr>p_title = title2,
          p_severity = (case severityMatch of Some s \<Rightarrow> s | None \<Rightarrow> ''Medium''),
          p_lineStart = parseDigits (case lineStartMatch of Some d \<Rightarrow> d | None \<Rightarrow> ''0''),
          p_lineEnd = parseDigits (case lineEndMatch of Some d \<Rightarrow> d | None \<Rightarrow> ''0''),
          p_description = description,
          p_codeBlock = codeBlock,
          p_aiPrompt = aiPrompt\<rparr>)"

text \<open>
  The prompt the copy handler of \<open>runReviewSession\<close> puts on the clipboard for a comment's
  content: the trimmed capture of the older inline marker, nothing when it does not match.
\<close>

definition copyPromptOf :: "string \<Rightarrow> string option" where
  "copyPromptOf raw = map_option trim (firstMatch oldPromptRe raw)"

section \<open>Rendering (renderFileList, renderCommentDetail, renderSplitView, renderListView)\<close>

text \<open>
  A rendered line is represented by what it shows, not by its characters. The body of the
  detail panel (description, suggested fix and prompt, wrapped to the panel width) and
  \<open>Math.floor(width * 0.35)\<close>, a floating-point product, are parameters of the model.
\<close>

datatype Line =
    FilterHintLine | DividerLine | SummaryLine | BlankLine
  | FileLine nat | CommentLine nat nat
  | PlaceholderLine | DetailHeaderLine nat | DetailBodyLine nat

record RenderEnv =
  leftWidthOf :: "int \<Rightarrow> int"
  detailBody :: "string \<Rightarrow> int \<Rightarrow> Line list"

text \<open>\<open>xs.slice(start)\<close> and \<open>xs.slice(0, end)\<close>: a negative argument counts from the end.\<close>

definition js_slice_from :: "'a list \<Rightarrow> int \<Rightarrow> 'a list" where
  "js_slice_from xs start =
     (if start < 0 then drop (nat (max (int (length xs) + start) 0)) xs else drop (nat start) xs)"

definition js_slice_to :: "'a list \<Rightarrow> int \<Rightarrow> 'a list" where
  "js_slice_to xs end =
     (if end < 0 then take (nat (max (int (length xs) + end) 0)) xs else take (nat end) xs)"

definition fileListLines :: "ReviewState \<Rightarrow> int \<Rightarrow> Line list" where
  "fileListLines state scrollOffset =
     (if scrollOffset = 0 then [FilterHintLine, DividerLine, SummaryLine, BlankLine] else []) @
     concat (map (\<lambda>(fIdx, file).
        FileLine fIdx #
        (if expanded file then map (CommentLine fIdx) [0..<length (comments file)] else []))
       (enumerate 0 (files state)))"

definition scrollWindow :: "Line list \<Rightarrow> int \<Rightarrow> int \<Rightarrow> Line list \<times> int" where
  "scrollWindow lines maxHeight scrollOffset =
     (let totalLines = int (length lines);
          maxScroll = max 0 (totalLines - maxHeight);
          adjustedScrollOffset = min scrollOffset maxScroll;
          scrolled = js_slice_from lines adjustedScrollOffset
      in (js_slice_to scrolled maxHeight, totalLines))"

definition renderFileList :: "ReviewState \<Rightarrow> int \<Rightarrow> int \<Rightarrow> int \<Rightarrow> Line list \<times> int" where
  "renderFileList state width maxHeight scrollOffset =
     scrollWindow (fileListLines state scrollOffset) maxHeight scrollOffset"

definition renderCommentDetail :: "RenderEnv \<Rightarrow> ReviewState \<Rightarrow> int \<Rightarrow> int \<Rightarrow> int \<Rightarrow> Line list \<times> int" where
  "renderCommentDetail env state width maxHeight scrollOffset =
     (case js_index (files state) (selectedFileIndex state) of
        None \<Rightarrow> ([PlaceholderLine], 1)
      | Some file \<Rightarrow>
          (if selectedCommentIndex state < 0 \<or>
              selectedCommentIndex state \<ge> int (length (comments file))
           then ([PlaceholderLine], 1)
           else
             (let comment = comments file ! nat (selectedCommentIndex state);
                  lines = (if scrollOffset = 0 then map DetailHeaderLine [0..<5] else []) @
                          detailBody env (content comment) width
              in scrollWindow lines maxHeight scrollOffset)))"

text \<open>The status part of the footer: the spinner glyph of the frame, or a fixed text.\<close>

datatype StatusIndicator = Spinner int | DoneText | ReviewCompletedText

text \<open>\<open>a % 10\<close> of JavaScript: the remainder has the sign of \<open>a\<close>.\<close>

definition js_rem10 :: "int \<Rightarrow> int" where
  "js_rem10 a = (if a < 0 then - ((- a) mod 10) else a mod 10)"

record Screen =
  left_lines :: "Line list"
  right_lines :: "Line list"
  footer_status :: StatusIndicator

text \<open>\<open>getTerminalSize\<close>: a missing or zero dimension counts as 120 columns, 40 rows.\<close>

definition getTerminalSize :: "int \<times> int \<Rightarrow> int \<times> int" where
  "getTerminalSize t = ((if fst t = 0 then 120 else fst t), (if snd t = 0 then 40 else snd t))"

definition renderSplitView :: "RenderEnv \<Rightarrow> int \<times> int \<Rightarrow> ReviewState \<Rightarrow> ReviewState \<times> Screen" where
  "renderSplitView env t state =
     (let width = fst (getTerminalSize t); height = snd (getTerminalSize t);
          safeHeight = height - 1;
          leftWidth = leftWidthOf env width;
          rightWidth = width - leftWidth - 3;
          contentHeight = safeHeight - 5;
          leftResult = renderFileList state leftWidth contentHeight (leftPanelScrollOffset state);
          rightResult = renderCommentDetail env state rightWidth contentHeight (detailScrollOffset state);
          leftMaxScroll = max 0 (snd leftResult - contentHeight);
          rightMaxScroll = max 0 (snd rightResult - contentHeight);
          state1 = state\<lparr>leftPanelScrollOffset := min (leftPanelScrollOffset state) leftMaxScroll\<rparr>;
          state2 = state1\<lparr>detailScrollOffset := min (detailScrollOffset state1) rightMaxScroll\<rparr>
      in (state2,
          \<lparr>left_lines = fst leftResult, right_lines = fst rightResult,
           footer_status = (if status state = Running then Spinner (js_rem10 (spinnerFrame state))
                            else DoneText)\<rparr>))"

definition renderListView :: "int \<times> int \<Rightarrow> ReviewState \<Rightarrow> Screen" where
  "renderListView t state =
     (let width = fst (getTerminalSize t); height = snd (getTerminalSize t);
          result = renderFileList state width (height - 4) 0
      in \<lparr>left_lines = fst result, right_lines = [],
          footer_status = (if status state = Running then Spinner (js_rem10 (spinnerFrame state))
                           else ReviewCompletedText)\<rparr>)"

definition render :: "RenderEnv \<Rightarrow> int \<times> int \<Rightarrow> ReviewState \<Rightarrow> ReviewState \<times> Screen" where
  "render env t state =
     (if mode state = DetailMode then renderSplitView env t state
      else (state, renderListView t state))"


section \<open>The event loop (runReviewSession)\<close>

text \<open>
  The session owns the state, the two interval timers and the terminal. The poll callback
  awaits the comments and then the status, so its two halves are separate events, and a
  request that was started before the timer was cleared may still complete.
\<close>

record Session =
  sess_state :: ReviewState
  pollTimer :: bool
  uiTimer :: bool
  awaitingComments :: nat
  awaitingStatus :: nat
  cleanupStarted :: bool
  exited :: bool
  terminal :: "int \<times> int"
  screen :: "Screen option"
  clipboard :: "string list"

datatype Event =
    Keypress "Key option"
  | Resize int int
  | PollTick
  | CommentsArrived "ReviewComment list option"
  | StatusArrived "Status option"
  | UiTick
  | StopAnalysisDone

definition doRender :: "RenderEnv \<Rightarrow> Session \<Rightarrow> Session" where
  "doRender env s =
     (let r = render env (terminal s) (sess_state s)
      in s\<lparr>sess_state := fst r, screen := Some (snd r)\<rparr>)"

text \<open>\<open>/\x1B\[<(\d+);(\d+);(\d+)([Mm])/\<close>: the button, the column and the event type.\<close>

definition mouseRe :: "string \<Rightarrow> (int \<times> int \<times> char) option" where
  "mouseRe s =
     (case lit (ESC # ''[<'') s of
        None \<Rightarrow> None
      | Some r1 \<Rightarrow>
          (if takeWhile is_digit r1 = [] then None
           else case lit '';'' (dropWhile is_digit r1) of
             None \<Rightarrow> None
           | Some r2 \<Rightarrow>
               (if takeWhile is_digit r2 = [] then None
                else case lit '';'' (dropWhile is_digit r2) of
                  None \<Rightarrow> None
                | Some r3 \<Rightarrow>
                    (if takeWhile is_digit r3 = [] then None
                     else case dropWhile is_digit r3 of
                       [] \<Rightarrow> None
                     | ty # _ \<Rightarrow>
                         if ty = CHR ''M'' \<or> ty = CHR ''m''
                         then Some (parseDigits (takeWhile is_digit r1),
                                    parseDigits (takeWhile is_digit r2), ty)
                         else None))))"

text \<open>The mouse part of the keypress listener; \<open>None\<close> when it does not return.\<close>

definition handleMouse :: "RenderEnv \<Rightarrow> Session \<Rightarrow> Key option \<Rightarrow> Session option" where
  "handleMouse env s key =
     (case key of
        None \<Rightarrow> None
      | Some k \<Rightarrow>
          (if key_sequence k = [] then None
           else case firstMatch mouseRe (key_sequence k) of
             None \<Rightarrow> None
           | Some (b, x, ty) \<Rightarrow>
               (let state = sess_state s;
                    leftWidth = leftWidthOf env (fst (getTerminalSize (terminal s)));
                    isLeft = (x \<le> leftWidth)
                in if b = 64 \<or> b = 65 then
                     (let delta = (if b = 64 then -3 else 3);
                          state' = (if isLeft
                                    then state\<lparr>leftPanelScrollOffset :=
                                           max 0 (leftPanelScrollOffset state + delta)\<rparr>
                                    else state\<lparr>detailScrollOffset :=
                                           max 0 (detailScrollOffset state + delta)\<rparr>)
                      in Some (doRender env (s\<lparr>sess_state := state'\<rparr>)))
                   else if b = 0 \<and> ty = CHR ''m'' \<and> mode state = DetailMode then
                     Some (doRender env
                       (s\<lparr>sess_state := state\<lparr>focusedPanel :=
                            (if isLeft then LeftPanel else RightPanel)\<rparr>\<rparr>))
                   else None)))"

text \<open>
  The copy action: the prompt of the selected comment goes to the clipboard when the
  older inline marker matches; reading the content of a comment index past the end throws.
\<close>

definition doCopy :: "Session \<Rightarrow> Session" where
  "doCopy s =
     (let state = sess_state s
      in case js_index (files state) (selectedFileIndex state) of
           None \<Rightarrow> s
         | Some file \<Rightarrow>
             (if selectedCommentIndex state \<ge> 0 then
                (case js_index (comments file) (selectedCommentIndex state) of
                   None \<Rightarrow> s
                 | Some c \<Rightarrow>
                     (case copyPromptOf (content c) of
                        None \<Rightarrow> s
                      | Some p \<Rightarrow> s\<lparr>clipboard := clipboard s @ [p]\<rparr>))
              else s))"

definition doCleanup :: "Session \<Rightarrow> Session" where
  "doCleanup s = s\<lparr>pollTimer := False, uiTimer := False, exited := True\<rparr>"

definition onKeypress :: "RenderEnv \<Rightarrow> Session \<Rightarrow> Key option \<Rightarrow> Session" where
  "onKeypress env s key =
     (case handleMouse env s key of
        Some s' \<Rightarrow> s'
      | None \<Rightarrow>
          (case handleKeypress (sess_state s) key of
             Inl thrown \<Rightarrow> s\<lparr>sess_state := thrown\<rparr>
           | Inr (state', action) \<Rightarrow>
               (let s1 = s\<lparr>sess_state := state'\<rparr>
                in case action of
                     ActQuit \<Rightarrow>
                       (if dataId state' = None \<or> dataId state' = Some []
                        then doCleanup s1 else s1\<lparr>cleanupStarted := True\<rparr>)
                   | ActRender \<Rightarrow> doRender env s1
                   | ActCopy \<Rightarrow> doCopy s1
                   | ActNone \<Rightarrow> s1)))"

definition step :: "RenderEnv \<Rightarrow> Session \<Rightarrow> Event \<Rightarrow> Session" where
  "step env s ev =
     (if exited s then s
      else case ev of
        Keypress key \<Rightarrow> onKeypress env s key
      | Resize w h \<Rightarrow> doRender env (s\<lparr>terminal := (w, h)\<rparr>)
      | PollTick \<Rightarrow> (if pollTimer s then s\<lparr>awaitingComments := Suc (awaitingComments s)\<rparr> else s)
      | CommentsArrived r \<Rightarrow>
          (if awaitingComments s = 0 then s
           else
             (let s1 = s\<lparr>awaitingComments := awaitingComments s - 1\<rparr>
              in case r of
                   None \<Rightarrow> s1
                 | Some newComments \<Rightarrow>
                     (let s2 = (if length newComments > 0
                                then doRender env
                                       (s1\<lparr>sess_state := addComments newComments (sess_state s1)\<rparr>)
                                else s1)
                      in s2\<lparr>awaitingStatus := Suc (awaitingStatus s2)\<rparr>)))
      | StatusArrived r \<Rightarrow>
          (if awaitingStatus s = 0 then s
           else
             (let s1 = s\<lparr>awaitingStatus := awaitingStatus s - 1\<rparr>
              in case r of
                   None \<Rightarrow> s1
                 | Some analysis_status \<Rightarrow>
                     (if analysis_status \<noteq> Running
                      then doRender env
                             (s1\<lparr>sess_state := (sess_state s1)\<lparr>status := analysis_status\<rparr>,
                                 pollTimer := False\<rparr>)
                      else s1)))
      | UiTick \<Rightarrow>
          (if uiTimer s \<and> status (sess_state s) = Running
           then doRender env
                  (s\<lparr>sess_state := (sess_state s)\<lparr>spinnerFrame := spinnerFrame (sess_state s) + 1\<rparr>\<rparr>)
           else s)
      | StopAnalysisDone \<Rightarrow> (if cleanupStarted s then doCleanup s else s))"

definition run :: "RenderEnv \<Rightarrow> Session \<Rightarrow> Event list \<Rightarrow> Session" where
  "run env s evs = fold (\<lambda>ev s'. step env s' ev) evs s"

text \<open>The session when the timers have been set up, after the initial poll and render.\<close>

definition startSession :: "RenderEnv \<Rightarrow> int \<times> int \<Rightarrow> string \<Rightarrow> ReviewComment list option \<Rightarrow> Session" where
  "startSession env t d initial =
     doRender env
       \<lparr>sess_state = (case initial of
                        None \<Rightarrow> initialState d
                      | Some cs \<Rightarrow> addComments cs (initialState d)),
        pollTimer = True, uiTimer = True, awaitingComments = 0, awaitingStatus = 0,
        cleanupStarted = False, exited = False, terminal = t, screen = None, clipboard = []\<rparr>"

section \<open>The older dashboard (src/ui.ts: parseComment, handleKeypress)\<close>

text \<open>The prompt \<open>parseComment\<close> extracts: the older inline marker only.\<close>

definition parseComment_aiPrompt :: "string \<Rightarrow> string" where
  "parseComment_aiPrompt raw =
     (case firstMatch oldPromptRe raw of Some p \<Rightarrow> trim p | None \<Rightarrow> [])"

datatype UiCallback = OnQuit | OnCopyPrompt string | OnRefresh

text \<open>
  \<open>handleKeypress\<close> of src/ui.ts: after the quit check, a sequence of independent \<open>if\<close>
  blocks on the state; the callbacks it invokes are collected in order.
\<close>

definition ui_toggleSelected :: "UiReviewState \<Rightarrow> UiReviewState" where
  "ui_toggleSelected state =
     (case js_index (ui_files state) (ui_selectedFileIndex state) of
        None \<Rightarrow> state
      | Some file \<Rightarrow>
          state\<lparr>ui_files := (ui_files state)[nat (ui_selectedFileIndex state) :=
                    file\<lparr>expanded := \<not> expanded file\<rparr>]\<rparr>)"

definition ui_upBlock :: "Key \<Rightarrow> UiReviewState \<Rightarrow> UiReviewState" where
  "ui_upBlock k state =
     (if isUpKey k then
        (if ui_showingDetail state \<and> ui_selectedCommentIndex state > 0 then
           state\<lparr>ui_selectedCommentIndex := ui_selectedCommentIndex state - 1\<rparr>
         else if ui_selectedFileIndex state > 0 then
           (let s1 = state\<lparr>ui_selectedFileIndex := ui_selectedFileIndex state - 1\<rparr>
            in s1\<lparr>ui_selectedCommentIndex :=
                  (case js_index (ui_files s1) (ui_selectedFileIndex s1) of
                     Some file \<Rightarrow> int (length (comments file)) - 1
                   | None \<Rightarrow> 0)\<rparr>)
         else state)
      else state)"

definition ui_downBlock :: "Key \<Rightarrow> UiReviewState \<Rightarrow> UiReviewState" where
  "ui_downBlock k state =
     (if isDownKey k then
        (if ui_showingDetail state \<and>
            (case js_index (ui_files state) (ui_selectedFileIndex state) of
               Some currentFile \<Rightarrow>
                 ui_selectedCommentIndex state < int (length (comments currentFile)) - 1
             | None \<Rightarrow> False) then
           state\<lparr>ui_selectedCommentIndex := ui_selectedCommentIndex state + 1\<rparr>
         else if ui_selectedFileIndex state < int (length (ui_files state)) - 1 then
           state\<lparr>ui_selectedFileIndex := ui_selectedFileIndex state + 1,
                 ui_selectedCommentIndex := 0\<rparr>
         else state)
      else state)"

definition ui_returnBlock :: "Key \<Rightarrow> UiReviewState \<Rightarrow> UiReviewState" where
  "ui_returnBlock k state =
     (if key_name k = Some ''return'' then
        (case js_index (ui_files state) (ui_selectedFileIndex state) of
           None \<Rightarrow> state
         | Some file \<Rightarrow>
             (if \<not> ui_showingDetail state then ui_toggleSelected state else state)
               \<lparr>ui_showingDetail := True\<rparr>)
      else state)"

definition ui_backBlock :: "Key \<Rightarrow> UiReviewState \<Rightarrow> UiReviewState" where
  "ui_backBlock k state =
     (if key_name k = Some ''escape'' \<or> key_name k = Some ''left''
      then state\<lparr>ui_showingDetail := False\<rparr> else state)"

definition ui_rightBlock :: "Key \<Rightarrow> UiReviewState \<Rightarrow> UiReviewState" where
  "ui_rightBlock k state =
     (if key_name k = Some ''right'' then state\<lparr>ui_showingDetail := True\<rparr> else state)"

definition ui_copyCallbacks :: "Key \<Rightarrow> UiReviewState \<Rightarrow> UiCallback list" where
  "ui_copyCallbacks k state =
     (if key_name k = Some ''c'' then
        (case js_index (ui_files state) (ui_selectedFileIndex state) of
           None \<Rightarrow> []
         | Some file \<Rightarrow>
             (case js_index (comments file) (ui_selectedCommentIndex state) of
                None \<Rightarrow> []
              | Some comment \<Rightarrow>
                  (if parseComment_aiPrompt (content comment) \<noteq> []
                   then [OnCopyPrompt (parseComment_aiPrompt (content comment))] else [])))
      else [])"

definition ui_tabBlock :: "Key \<Rightarrow> UiReviewState \<Rightarrow> UiReviewState" where
  "ui_tabBlock k state =
     (if key_name k = Some ''tab'' then ui_toggleSelected state else state)"

definition ui_handleKeypress :: "UiReviewState \<Rightarrow> Key \<Rightarrow> UiReviewState \<times> UiCallback list" where
  "ui_handleKeypress state k =
     (if key_name k = Some ''q'' \<or> (key_ctrl k \<and> key_name k = Some ''c'') then (state, [OnQuit])
      else
        (let s5 = ui_rightBlock k (ui_backBlock k (ui_returnBlock k (ui_downBlock k (ui_upBlock k state))));
             copied = ui_copyCallbacks k s5;
             refreshed = (if key_name k = Some ''r'' \<and> key_ctrl k then [OnRefresh] else [])
         in (ui_tabBlock k s5, copied @ refreshed)))"

section \<open>Notions used in the statements\<close>


text \<open>The stored scroll offsets are non-negative, in a state and in a key result.\<close>

definition offsetsNonneg :: "ReviewState \<Rightarrow> bool" where
  "offsetsNonneg s \<longleftrightarrow> 0 \<le> leftPanelScrollOffset s \<and> 0 \<le> detailScrollOffset s"


text \<open>What a key press leaves alone: the status, the spinner frame and the analysis id.\<close>

definition sameSession :: "ReviewState \<Rightarrow> ReviewState \<Rightarrow> bool" where
  "sameSession s s' \<longleftrightarrow> status s' = status s \<and> spinnerFrame s' = spinnerFrame s \<and> dataId s' = dataId s"

definition resultSame :: "ReviewState \<Rightarrow> KeyResult \<Rightarrow> bool" where
  "resultSame s r = (case r of Inl s' \<Rightarrow> sameSession s s' | Inr (s', a) \<Rightarrow> sameSession s s')"

text \<open>A footer without the spinner (also when nothing has been rendered yet).\<close>

definition staticFooter :: "Screen option \<Rightarrow> bool" where
  "staticFooter scr =
     (case scr of
        None \<Rightarrow> True
      | Some sc \<Rightarrow> footer_status sc = DoneText \<or> footer_status sc = ReviewCompletedText)"

text \<open>
  The session once the status is terminal: no poll timer, a fixed spinner frame, a static
  footer and no more pending comment requests than before.
\<close>

definition settled :: "int \<Rightarrow> nat \<Rightarrow> Session \<Rightarrow> bool" where
  "settled frame pending s \<longleftrightarrow>
     status (sess_state s) \<noteq> Running \<and> \<not> pollTimer s \<and>
     spinnerFrame (sess_state s) = frame \<and> staticFooter (screen s) \<and>
     awaitingComments s \<le> pending"

section \<open>Example inputs\<close>

text \<open>A finding on \<open>src/a.ts\<close>, and a second one on the same file.\<close>

definition leakComment :: ReviewComment where
  "leakComment =
     \<lparr>comment_id = ''c1'', file_path = ''src/a.ts'', line_start = 10, line_end = 12,
      severity = ''High'', confidence = ''0.9'', title = ''Leak'',
      content = ''**Severity**: High'', created_at = ''2024-01-01''\<rparr>"





text \<open>Keys as \<open>readline\<close> decodes them.\<close>

definition tabKey :: Key where
  "tabKey = \<lparr>key_name = Some ''tab'', key_ctrl = False, key_sequence = [CHR 0x09]\<rparr>"


definition cKey :: Key where
  "cKey = \<lparr>key_name = Some ''c'', key_ctrl = False, key_sequence = ''c''\<rparr>"

text \<open>A comment whose prompt is in the collapsible section, in a fenced block.\<close>

definition sectionPromptContent :: string where
  "sectionPromptContent =
     ''**Severity**: High'' @ [NL] @ ''**Title**: Leak'' @ [NL] @ ''The handle is never closed.'' @ [NL] @
     ''<details><summary>Prompt for AI</summary>'' @ [NL] @
     ''```'' @ [NL] @ ''Close the handle in a finally block.'' @ [NL] @ ''```'' @ [NL] @
     ''</details>''"

text \<open>A comment whose prompt follows the older inline marker.\<close>

definition inlinePromptContent :: string where
  "inlinePromptContent =
     ''The handle is never closed.'' @ [NL, NL] @
     ''**Prompt to Fix with AI**: Close the handle.'' @ [NL, NL] @ ''## Notes''"

text \<open>List mode, one expanded file with one comment, with the header or the comment selected.\<close>

definition oneFileState :: "string \<Rightarrow> int \<Rightarrow> ReviewState" where
  "oneFileState raw sel =
     (initialState ''d'')\<lparr>files := [\<lparr>filePath = ''src/a.ts'',
        comments = [leakComment\<lparr>content := raw\<rparr>], expanded = True\<rparr>],
        totalComments := 1, selectedCommentIndex := sel\<rparr>"

definition uiOneFileState :: UiReviewState where
  "uiOneFileState =
     \<lparr>ui_files = [\<lparr>filePath = ''src/a.ts'', comments = [leakComment], expanded = True\<rparr>],
      ui_totalComments = 1, ui_resolvedComments = 0, ui_selectedFileIndex = 0,
      ui_selectedCommentIndex = 0, ui_showingDetail = False, ui_status = Running\<rparr>"

text \<open>
  A rendering environment for the examples: the left panel takes 35 percent of the width,
  rounded down, and the detail body has one line for each line of the comment's content.
\<close>

definition exampleEnv :: RenderEnv where
  "exampleEnv = \<lparr>leftWidthOf = (\<lambda>w. (w * 35) div 100),
                 detailBody = (\<lambda>raw w. map DetailBodyLine [0..<length (splitOn NL raw)])\<rparr>"

text \<open>A session around a state, on a terminal of 120 columns and 40 rows.\<close>

definition exampleSession :: "ReviewState \<Rightarrow> Session" where
  "exampleSession st =
     \<lparr>sess_state = st, pollTimer = True, uiTimer = True, awaitingComments = 0,
      awaitingStatus = 0, cleanupStarted = False, exited = False, terminal = (120, 40),
      screen = None, clipboard = []\<rparr>"

text \<open>
  Detail mode on a comment of five lines, both offsets far past the end; and a turn of the
  mouse wheel over the first column.
\<close>

definition detailExample :: ReviewState where
  "detailExample =
     (oneFileState inlinePromptContent 0)\<lparr>mode := DetailMode, focusedPanel := RightPanel,
        leftPanelScrollOffset := 50, detailScrollOffset := 50\<rparr>"


text \<open>A running session after two ticks, with one poll under way: the status is awaited.\<close>

definition pollingSession :: Session where
  "pollingSession =
     run exampleEnv (startSession exampleEnv (120, 40) ''d'' None)
       [UiTick, UiTick, PollTick, CommentsArrived (Some [leakComment])]"

section \<open>Facts about the merge\<close>

lemma findIndex_None: "findIndex P xs = None \<longleftrightarrow> (\<forall>x \<in> set xs. \<not> P x)"
  by (induction xs) auto

lemma findIndex_Some:
  "findIndex P xs = Some i \<Longrightarrow> i < length xs \<and> P (xs ! i) \<and> (\<forall>j < i. \<not> P (xs ! j))"
proof (induction xs arbitrary: i)
  case Nil
  then show ?case by simp
next
  case (Cons x xs)
  show ?case
  proof (cases "P x")
    case True
    with Cons.prems show ?thesis by simp
  next
    case False
    with Cons.prems obtain k where k: "findIndex P xs = Some k" "i = Suc k"
      by auto
    from Cons.IH [OF k(1)] False k(2) show ?thesis
      by (auto simp: less_Suc_eq_0_disj)
  qed
qed

lemma find_findIndex:
  "find P xs = (case findIndex P xs of None \<Rightarrow> None | Some i \<Rightarrow> Some (xs ! i))"
  by (induction xs) (auto split: option.splits)

lemma findIndex_first:
  "i < length xs \<Longrightarrow> P (xs ! i) \<Longrightarrow> \<forall>j < i. \<not> P (xs ! j) \<Longrightarrow> findIndex P xs = Some i"
proof (induction xs arbitrary: i)
  case Nil
  then show ?case by simp
next
  case (Cons x xs)
  show ?case
  proof (cases i)
    case 0
    with Cons.prems show ?thesis by simp
  next
    case (Suc k)
    with Cons.prems have "\<not> P x" by auto
    moreover from Suc Cons.prems have "findIndex P xs = Some k"
      by (intro Cons.IH) auto
    ultimately show ?thesis using Suc by simp
  qed
qed

lemma findGroup_index:
  "findGroup p fs = (case findIndex (\<lambda>f. filePath f = p) fs of None \<Rightarrow> None | Some i \<Rightarrow> Some (fs ! i))"
  by (simp add: findGroup_def find_findIndex)

lemma findIndex_append_new:
  "findIndex P xs = None \<Longrightarrow> P y \<Longrightarrow> findIndex P (xs @ [y]) = Some (length xs)"
  by (induction xs) (auto split: if_splits)

lemma findIndex_update_same:
  "findIndex P xs = Some i \<Longrightarrow> P y \<Longrightarrow> findIndex P (xs[i := y]) = Some i"
proof -
  assume a: "findIndex P xs = Some i" and y: "P y"
  from findIndex_Some [OF a] have "i < length xs" "\<forall>j<i. \<not> P (xs ! j)" by auto
  then show ?thesis using y by (intro findIndex_first) auto
qed

lemma mergeComment_duplicate:
  "isDuplicate c fs \<Longrightarrow> mergeComment c (fs, t) = (fs, t)"
  by (auto simp: isDuplicate_def findGroup_index mergeComment_def Let_def list_ex_iff
           split: option.splits)

lemma mergeComment_new_group:
  "findIndex (\<lambda>f. filePath f = file_path c) fs = None \<Longrightarrow>
   mergeComment c (fs, t) = (fs @ [\<lparr>filePath = file_path c, comments = [c], expanded = True\<rparr>], t + 1)"
  by (simp add: mergeComment_def Let_def)

lemma mergeComment_append:
  "findIndex (\<lambda>f. filePath f = file_path c) fs = Some i \<Longrightarrow> \<not> isDuplicate c fs \<Longrightarrow>
   mergeComment c (fs, t) = (fs[i := (fs ! i)\<lparr>comments := comments (fs ! i) @ [c]\<rparr>], t + 1)"
  by (auto simp: isDuplicate_def findGroup_index mergeComment_def Let_def list_ex_iff)

lemma isDuplicate_after_merge: "isDuplicate c (fst (mergeComment c (fs, t)))"
proof (cases "findIndex (\<lambda>f. filePath f = file_path c) fs")
  case None
  then show ?thesis
    by (simp add: mergeComment_new_group isDuplicate_def findGroup_index findIndex_append_new sameKey_def)
next
  case (Some i)
  show ?thesis
  proof (cases "isDuplicate c fs")
    case True
    then show ?thesis by (simp add: mergeComment_duplicate)
  next
    case False
    from findIndex_Some [OF Some] have i: "i < length fs" "filePath (fs ! i) = file_path c" by auto
    have "findIndex (\<lambda>f. filePath f = file_path c) (fs[i := (fs ! i)\<lparr>comments := comments (fs ! i) @ [c]\<rparr>]) = Some i"
      using Some i by (intro findIndex_update_same) auto
    then show ?thesis using False Some i
      by (simp add: mergeComment_append isDuplicate_def findGroup_index sameKey_def)
  qed
qed

lemma isDuplicate_preserved:
  "isDuplicate c fs \<Longrightarrow> isDuplicate c (fst (mergeComment d (fs, t)))"
proof (cases "findIndex (\<lambda>f. filePath f = file_path d) fs")
  case None
  assume dup: "isDuplicate c fs"
  then obtain i where i: "findIndex (\<lambda>f. filePath f = file_path c) fs = Some i"
    by (auto simp: isDuplicate_def findGroup_index split: option.splits)
  from findIndex_Some [OF i] have il: "i < length fs" "filePath (fs ! i) = file_path c"
    "\<forall>j<i. filePath (fs ! j) \<noteq> file_path c" by auto
  have "findIndex (\<lambda>f. filePath f = file_path c)
          (fs @ [\<lparr>filePath = file_path d, comments = [d], expanded = True\<rparr>]) = Some i"
    using il by (intro findIndex_first) (auto simp: nth_append)
  then show ?thesis using None dup i il
    by (simp add: mergeComment_new_group isDuplicate_def findGroup_index nth_append)
next
  case (Some k)
  assume dup: "isDuplicate c fs"
  show ?thesis
  proof (cases "isDuplicate d fs")
    case True
    then show ?thesis using dup by (simp add: mergeComment_duplicate)
  next
    case False
    from dup obtain i where i: "findIndex (\<lambda>f. filePath f = file_path c) fs = Some i"
      by (auto simp: isDuplicate_def findGroup_index split: option.splits)
    from findIndex_Some [OF i] have il: "i < length fs" "filePath (fs ! i) = file_path c"
      "\<forall>j<i. filePath (fs ! j) \<noteq> file_path c" by auto
    from findIndex_Some [OF Some] have kl: "k < length fs" "filePath (fs ! k) = file_path d" by auto
    let ?fs' = "fs[k := (fs ! k)\<lparr>comments := comments (fs ! k) @ [d]\<rparr>]"
    have "findIndex (\<lambda>f. filePath f = file_path c) ?fs' = Some i"
      using il kl by (intro findIndex_first) (auto simp: nth_list_update)
    moreover have "\<exists>x \<in> set (comments (?fs' ! i)). sameKey c x"
      using dup i il kl by (auto simp: isDuplicate_def findGroup_index nth_list_update)
    ultimately show ?thesis using False Some
      by (simp add: mergeComment_append isDuplicate_def findGroup_index)
  qed
qed

lemma addComment_duplicate: "isDuplicate c (files st) \<Longrightarrow> addComment c st = st"
  by (simp add: addComment_def mergeComment_duplicate)

lemma isDuplicate_addComment_self: "isDuplicate c (files (addComment c st))"
  using isDuplicate_after_merge [of c "files st" "totalComments st"]
  by (simp add: addComment_def Let_def)

lemma isDuplicate_addComment_other:
  "isDuplicate c (files st) \<Longrightarrow> isDuplicate c (files (addComment d st))"
  using isDuplicate_preserved [of c "files st" d "totalComments st"]
  by (simp add: addComment_def Let_def)

lemma isDuplicate_addComments_other:
  "isDuplicate c (files st) \<Longrightarrow> isDuplicate c (files (addComments ds st))"
  unfolding addComments_def
  by (induction ds arbitrary: st) (auto intro: isDuplicate_addComment_other)

lemma addComments_all_duplicates:
  "\<forall>c \<in> set cs. isDuplicate c (files (addComments cs st))"
proof (induction cs arbitrary: st)
  case Nil
  then show ?case by simp
next
  case (Cons d ds)
  have "isDuplicate d (files (addComments ds (addComment d st)))"
    by (intro isDuplicate_addComments_other isDuplicate_addComment_self)
  with Cons.IH [of "addComment d st"] show ?case
    by (simp add: addComments_def)
qed

lemma addComments_of_duplicates:
  "\<forall>c \<in> set cs. isDuplicate c (files st) \<Longrightarrow> addComments cs st = st"
  unfolding addComments_def
  by (induction cs) (auto simp: addComment_duplicate)

section \<open>Claims about the merge\<close>



text \<open>
  Claim C10. Merging a list of comments is idempotent: merging the same list a second
  time, right after the first, gives exactly the state the first merge gave (the same
  \<open>files\<close>, the same comment lists, the same \<open>totalComments\<close> and every other field).
\<close>

theorem addComments_idempotent:
  "addComments cs (addComments cs st) = addComments cs st"
  by (intro addComments_of_duplicates addComments_all_duplicates)

section \<open>Facts about navigation\<close>


































section \<open>Facts about truncation and wrapping\<close>




























section \<open>Facts about the comment parser\<close>






























section \<open>Facts about rendering and the scroll offsets\<close>













lemma cursorMoved_offsetsNonneg: "offsetsNonneg s \<Longrightarrow> offsetsNonneg (cursorMoved s a b)"
  by (simp add: cursorMoved_def offsetsNonneg_def)


















section \<open>Facts about the event loop\<close>

lemma navigateBlock_same:
  "navigateBlock s k = Some r \<Longrightarrow> resultSame s r"
  by (auto simp: navigateBlock_def resultSame_def sameSession_def cursorMoved_def navigateUp_def
      navigateDown_def resetDetailScroll_def Let_def split: if_splits sum.splits option.splits)

lemma blocks_same:
  shows "quitBlock s k = Some r \<Longrightarrow> resultSame s r"
    and "tabBlock s k = Some r \<Longrightarrow> resultSame s r"
    and "arrowScrollBlock s k = Some r \<Longrightarrow> resultSame s r"
    and "enterDetailBlock s k = Some r \<Longrightarrow> resultSame s r"
    and "exitDetailBlock s k = Some r \<Longrightarrow> resultSame s r"
    and "toggleExpandBlock s k = Some r \<Longrightarrow> resultSame s r"
    and "pageScrollBlock s k = Some r \<Longrightarrow> resultSame s r"
    and "copyBlock s k = Some r \<Longrightarrow> resultSame s r"
  by (auto simp: quitBlock_def tabBlock_def arrowScrollBlock_def enterDetailBlock_def
      exitDetailBlock_def toggleExpandBlock_def pageScrollBlock_def copyBlock_def
      resultSame_def sameSession_def Let_def split: if_splits option.splits)

lemma firstReturn_same:
  assumes "\<And>b r. b \<in> set bs \<Longrightarrow> b s k = Some r \<Longrightarrow> resultSame s r"
  shows "resultSame s (firstReturn bs s k)"
  using assms
proof (induction bs)
  case Nil
  show ?case by (simp add: resultSame_def sameSession_def)
next
  case (Cons b bs)
  then show ?case by (cases "b s k") auto
qed

lemma handleKeypress_same: "resultSame s (handleKeypress s key)"
proof (cases key)
  case None
  then show ?thesis by (simp add: handleKeypress_def resultSame_def sameSession_def)
next
  case (Some k)
  have "resultSame s (firstReturn [quitBlock, tabBlock, navigateBlock, arrowScrollBlock,
      enterDetailBlock, exitDetailBlock, toggleExpandBlock, pageScrollBlock, copyBlock] s k)"
  proof (rule firstReturn_same)
    fix b r
    assume "b \<in> set [quitBlock, tabBlock, navigateBlock, arrowScrollBlock,
      enterDetailBlock, exitDetailBlock, toggleExpandBlock, pageScrollBlock, copyBlock]"
      and "b s k = Some r"
    then show "resultSame s r"
      using blocks_same [of s k r] navigateBlock_same [of s k r] by auto
  qed
  with Some show ?thesis by (simp add: handleKeypress_def)
qed

lemma render_same: "sameSession s (fst (render env t s))"
  by (simp add: render_def renderSplitView_def Let_def sameSession_def)

lemma addComments_same: "sameSession s (addComments cs s)"
proof -
  have "status (addComments cs s) = status s \<and> spinnerFrame (addComments cs s) = spinnerFrame s \<and>
        dataId (addComments cs s) = dataId s"
    unfolding addComments_def
    by (induction cs arbitrary: s) (simp_all add: addComment_def Let_def)
  then show ?thesis by (simp add: sameSession_def)
qed

lemma render_footer:
  "status s \<noteq> Running \<Longrightarrow> staticFooter (Some (snd (render env t s)))"
  by (simp add: render_def renderSplitView_def renderListView_def Let_def staticFooter_def)

lemma doRender_settled:
  assumes "status (sess_state s) \<noteq> Running" "\<not> pollTimer s" "spinnerFrame (sess_state s) = frame"
    "awaitingComments s \<le> pending"
  shows "settled frame pending (doRender env s)"
  using assms render_same [of "sess_state s" env "terminal s"]
    render_footer [of "sess_state s" env "terminal s"]
  by (simp add: settled_def doRender_def Let_def sameSession_def)

lemma handleMouse_settled:
  assumes "settled frame pending s" and "handleMouse env s key = Some s'"
  shows "settled frame pending s'"
proof -
  have a: "settled frame pending
             (doRender env (s\<lparr>sess_state := (sess_state s)\<lparr>leftPanelScrollOffset := x\<rparr>\<rparr>))"
    "settled frame pending
             (doRender env (s\<lparr>sess_state := (sess_state s)\<lparr>detailScrollOffset := x\<rparr>\<rparr>))"
    "settled frame pending
             (doRender env (s\<lparr>sess_state := (sess_state s)\<lparr>focusedPanel := p\<rparr>\<rparr>))" for x p
    using assms(1) by (intro doRender_settled; simp add: settled_def)+
  from assms(2) show ?thesis
    by (auto simp: handleMouse_def Let_def a split: option.splits if_splits prod.splits)
qed

lemma onKeypress_settled:
  assumes "settled frame pending s"
  shows "settled frame pending (onKeypress env s key)"
proof (cases "handleMouse env s key")
  case (Some s')
  with handleMouse_settled [OF assms Some] show ?thesis by (simp add: onKeypress_def)
next
  case None
  show ?thesis
  proof (cases "handleKeypress (sess_state s) key")
    case (Inl thrown)
    with handleKeypress_same [of "sess_state s" key] assms None show ?thesis
      by (simp add: onKeypress_def resultSame_def sameSession_def settled_def)
  next
    case (Inr p)
    obtain state' action where p: "p = (state', action)" by (cases p)
    with Inr handleKeypress_same [of "sess_state s" key]
    have same: "status state' = status (sess_state s)" "spinnerFrame state' = spinnerFrame (sess_state s)"
      by (simp_all add: resultSame_def sameSession_def)
    let ?s1 = "s\<lparr>sess_state := state'\<rparr>"
    have s1: "settled frame pending ?s1"
      using assms same by (simp add: settled_def)
    have r: "settled frame pending (doRender env ?s1)"
      using assms same by (intro doRender_settled) (simp_all add: settled_def)
    have c: "settled frame pending (doCopy ?s1)"
      using s1 by (simp add: doCopy_def Let_def settled_def split: option.splits)
    have q: "settled frame pending (doCleanup ?s1)" "settled frame pending (?s1\<lparr>cleanupStarted := True\<rparr>)"
      using s1 by (simp_all add: doCleanup_def settled_def)
    from None Inr p s1 r c q show ?thesis
      by (cases action) (simp_all add: onKeypress_def Let_def)
  qed
qed

lemma step_settled:
  assumes "settled frame pending s"
  shows "settled frame pending (step env s ev)"
proof (cases "exited s")
  case True
  with assms show ?thesis by (simp add: step_def)
next
  case False
  show ?thesis
  proof (cases ev)
    case (Keypress key)
    with False onKeypress_settled [OF assms] show ?thesis by (simp add: step_def)
  next
    case (Resize w h)
    have "settled frame pending (doRender env (s\<lparr>terminal := (w, h)\<rparr>))"
      using assms by (intro doRender_settled) (simp_all add: settled_def)
    with Resize False show ?thesis by (simp add: step_def)
  next
    case PollTick
    with False assms show ?thesis by (simp add: step_def settled_def)
  next
    case (CommentsArrived r)
    show ?thesis
    proof (cases r)
      case None
      with CommentsArrived False assms show ?thesis
        by (auto simp: step_def Let_def settled_def)
    next
      case (Some cs)
      let ?s1 = "s\<lparr>awaitingComments := awaitingComments s - 1\<rparr>"
      have le: "awaitingComments s - 1 \<le> pending"
        using assms unfolding settled_def by linarith
      have "settled frame pending
              (doRender env (?s1\<lparr>sess_state := addComments cs (sess_state ?s1)\<rparr>))"
        using assms addComments_same [of "sess_state s" cs] le
        by (intro doRender_settled) (simp_all add: settled_def sameSession_def)
      then have "settled frame pending
              ((doRender env (?s1\<lparr>sess_state := addComments cs (sess_state ?s1)\<rparr>))
                 \<lparr>awaitingStatus := n\<rparr>)" for n
        by (simp add: settled_def)
      moreover have "settled frame pending (?s1\<lparr>awaitingStatus := n\<rparr>)" for n
        using assms le by (simp add: settled_def)
      ultimately show ?thesis using CommentsArrived Some False assms
        by (simp add: step_def Let_def)
    qed
  next
    case (StatusArrived r)
    show ?thesis
    proof (cases r)
      case None
      with StatusArrived False assms show ?thesis
        by (auto simp: step_def Let_def settled_def)
    next
      case (Some st)
      let ?s1 = "s\<lparr>awaitingStatus := awaitingStatus s - 1\<rparr>"
      have "st \<noteq> Running \<Longrightarrow> settled frame pending
              (doRender env (?s1\<lparr>sess_state := (sess_state ?s1)\<lparr>status := st\<rparr>, pollTimer := False\<rparr>))"
        using assms by (intro doRender_settled) (simp_all add: settled_def)
      moreover have "settled frame pending ?s1"
        using assms by (simp add: settled_def)
      ultimately show ?thesis using StatusArrived Some False assms
        by (simp add: step_def Let_def)
    qed
  next
    case UiTick
    with False assms show ?thesis by (simp add: step_def settled_def)
  next
    case StopAnalysisDone
    with False assms show ?thesis by (simp add: step_def doCleanup_def settled_def)
  qed
qed

lemma run_settled: "settled frame pending s \<Longrightarrow> settled frame pending (run env s evs)"
  unfolding run_def
  by (induction evs arbitrary: s) (simp_all add: step_settled)

lemma settled_ticks:
  assumes "settled frame pending s"
  shows "step env s UiTick = s" and "step env s PollTick = s"
  using assms by (simp_all add: step_def settled_def)

lemma status_arrival:
  assumes "\<not> exited s" and "0 < awaitingStatus s" and "st \<noteq> Running"
  shows "step env s (StatusArrived (Some st)) =
           doRender env (s\<lparr>awaitingStatus := awaitingStatus s - 1,
                          sess_state := (sess_state s)\<lparr>status := st\<rparr>, pollTimer := False\<rparr>)"
  using assms by (simp add: step_def Let_def)

text \<open>
  Claim C9, as the code has it. When the awaited status arrives and is not \<open>running\<close>, the
  handler stores it, clears the poll timer and renders, and the footer of that render
  shows no spinner. The UI timer is left as it was. From then on, under any events: the
  status stays terminal, the poll timer stays cleared and a tick of it starts no request,
  \<open>spinnerFrame\<close> keeps its value, every render shows the static footer, and a tick of the
  UI timer changes nothing.
\<close>

theorem terminal_status_settles_session:
  "\<not> exited s \<and> 0 < awaitingStatus s \<and> st \<noteq> Running \<longrightarrow>
     status (sess_state (step env s (StatusArrived (Some st)))) = st \<and>
     \<not> pollTimer (step env s (StatusArrived (Some st))) \<and>
     uiTimer (step env s (StatusArrived (Some st))) = uiTimer s \<and>
     screen (step env s (StatusArrived (Some st))) \<noteq> None \<and>
     staticFooter (screen (step env s (StatusArrived (Some st)))) \<and>
     (\<forall>evs.
        status (sess_state (run env (step env s (StatusArrived (Some st))) evs)) \<noteq> Running \<and>
        \<not> pollTimer (run env (step env s (StatusArrived (Some st))) evs) \<and>
        spinnerFrame (sess_state (run env (step env s (StatusArrived (Some st))) evs)) =
          spinnerFrame (sess_state s) \<and>
        staticFooter (screen (run env (step env s (StatusArrived (Some st))) evs)) \<and>
        awaitingComments (run env (step env s (StatusArrived (Some st))) evs) \<le> awaitingComments s \<and>
        step env (run env (step env s (StatusArrived (Some st))) evs) UiTick =
          run env (step env s (StatusArrived (Some st))) evs \<and>
        step env (run env (step env s (StatusArrived (Some st))) evs) PollTick =
          run env (step env s (StatusArrived (Some st))) evs)"
proof (intro impI)
  assume a: "\<not> exited s \<and> 0 < awaitingStatus s \<and> st \<noteq> Running"
  let ?s0 = "s\<lparr>awaitingStatus := awaitingStatus s - 1,
               sess_state := (sess_state s)\<lparr>status := st\<rparr>, pollTimer := False\<rparr>"
  let ?s1 = "step env s (StatusArrived (Some st))"
  from a have s1: "?s1 = doRender env ?s0" by (simp add: status_arrival)
  have same: "sameSession (sess_state ?s0) (sess_state ?s1)"
    unfolding s1 by (simp add: doRender_def Let_def render_same)
  then have st: "status (sess_state ?s1) = st"
    and fr: "spinnerFrame (sess_state ?s1) = spinnerFrame (sess_state s)"
    by (simp_all add: sameSession_def)
  have pt: "\<not> pollTimer ?s1" and ut: "uiTimer ?s1 = uiTimer s" and sc: "screen ?s1 \<noteq> None"
    and ac: "awaitingComments ?s1 = awaitingComments s"
    unfolding s1 by (simp_all add: doRender_def Let_def)
  have settled1: "settled (spinnerFrame (sess_state s)) (awaitingComments s) ?s1"
    unfolding s1 using a by (intro doRender_settled) simp_all
  then have sf: "staticFooter (screen ?s1)" by (simp add: settled_def)
  have later: "settled (spinnerFrame (sess_state s)) (awaitingComments s) (run env ?s1 evs)" for evs
    using settled1 by (rule run_settled)
  have "status (sess_state (run env ?s1 evs)) \<noteq> Running \<and>
        \<not> pollTimer (run env ?s1 evs) \<and>
        spinnerFrame (sess_state (run env ?s1 evs)) = spinnerFrame (sess_state s) \<and>
        staticFooter (screen (run env ?s1 evs)) \<and>
        awaitingComments (run env ?s1 evs) \<le> awaitingComments s \<and>
        step env (run env ?s1 evs) UiTick = run env ?s1 evs \<and>
        step env (run env ?s1 evs) PollTick = run env ?s1 evs" for evs
    using later [of evs] settled_ticks [OF later [of evs], of env]
    by (simp add: settled_def)
  with st pt ut sc sf show "status (sess_state ?s1) = st \<and>
     \<not> pollTimer ?s1 \<and> uiTimer ?s1 = uiTimer s \<and> screen ?s1 \<noteq> None \<and>
     staticFooter (screen ?s1) \<and>
     (\<forall>evs.
        status (sess_state (run env ?s1 evs)) \<noteq> Running \<and>
        \<not> pollTimer (run env ?s1 evs) \<and>
        spinnerFrame (sess_state (run env ?s1 evs)) = spinnerFrame (sess_state s) \<and>
        staticFooter (screen (run env ?s1 evs)) \<and>
        awaitingComments (run env ?s1 evs) \<le> awaitingComments s \<and>
        step env (run env ?s1 evs) UiTick = run env ?s1 evs \<and>
        step env (run env ?s1 evs) PollTick = run env ?s1 evs)"
    by blast
qed

lemma pollingSession_facts:
  "\<not> exited pollingSession" "0 < awaitingStatus pollingSession"
  "status (sess_state pollingSession) = Running"
  "spinnerFrame (sess_state pollingSession) = 2"
  "pollTimer pollingSession" "uiTimer pollingSession"
  "map footer_status (case screen pollingSession of None \<Rightarrow> [] | Some sc \<Rightarrow> [sc]) = [Spinner 2]"
  by code_simp+

text \<open>
  A running session at frame 2 whose poll reports \<open>completed\<close>: later ticks and a resize
  leave the frame at 2 and the footer static.
\<close>

theorem terminal_status_settles_session_witness:
  "\<not> exited pollingSession \<and> 0 < awaitingStatus pollingSession \<and>
   status (sess_state pollingSession) = Running \<and>
   spinnerFrame (sess_state pollingSession) = 2 \<and>
   status (sess_state (step exampleEnv pollingSession (StatusArrived (Some Completed)))) = Completed \<and>
   \<not> pollTimer (step exampleEnv pollingSession (StatusArrived (Some Completed))) \<and>
   spinnerFrame (sess_state (run exampleEnv
      (step exampleEnv pollingSession (StatusArrived (Some Completed)))
      [UiTick, PollTick, UiTick, Resize 100 30, UiTick])) = 2 \<and>
   staticFooter (screen (run exampleEnv
      (step exampleEnv pollingSession (StatusArrived (Some Completed)))
      [UiTick, PollTick, UiTick, Resize 100 30, UiTick]))"
proof -
  have c: "Completed \<noteq> Running" by simp
  from terminal_status_settles_session [of pollingSession Completed exampleEnv]
    pollingSession_facts c
  show ?thesis by simp
qed

text \<open>
  Where the claim as stated fails: after the status has become \<open>completed\<close> the session
  has not ended and the UI timer is still scheduled (only \<open>cleanup\<close> clears it).
\<close>

theorem ui_timer_still_scheduled_counterexample:
  "status (sess_state pollingSession) = Running \<and>
   status (sess_state (step exampleEnv pollingSession (StatusArrived (Some Completed)))) = Completed \<and>
   \<not> exited (step exampleEnv pollingSession (StatusArrived (Some Completed))) \<and>
   \<not> pollTimer (step exampleEnv pollingSession (StatusArrived (Some Completed))) \<and>
   uiTimer (step exampleEnv pollingSession (StatusArrived (Some Completed)))"
  by code_simp

section \<open>Facts about the keys\<close>

lemma tab_in_list_mode:
  "mode s = ListMode \<Longrightarrow> key_name k = Some ''tab'' \<Longrightarrow>
   handleKeypress s (Some k) = Inr (s, ActNone)"
  by (simp add: handleKeypress_def quitBlock_def tabBlock_def navigateBlock_def
        arrowScrollBlock_def enterDetailBlock_def exitDetailBlock_def toggleExpandBlock_def
        pageScrollBlock_def copyBlock_def isUpKey_def isDownKey_def)

lemma tab_in_detail_mode:
  "mode s = DetailMode \<Longrightarrow> key_name k = Some ''tab'' \<Longrightarrow>
   handleKeypress s (Some k) =
     Inr (s\<lparr>focusedPanel := (if focusedPanel s = LeftPanel then RightPanel else LeftPanel)\<rparr>,
          ActRender)"
  by (simp add: handleKeypress_def quitBlock_def tabBlock_def)

lemma tab_list_eval:
  "mode (oneFileState ''x'' (-1)) = ListMode"
  "map expanded (files (oneFileState ''x'' (-1))) = [True]"
  "handleKeypress (oneFileState ''x'' (-1)) (Some tabKey) = Inr (oneFileState ''x'' (-1), ActNone)"
  "step exampleEnv (exampleSession (oneFileState ''x'' (-1))) (Keypress (Some tabKey)) =
     exampleSession (oneFileState ''x'' (-1))"
  "map expanded (ui_files (fst (ui_handleKeypress uiOneFileState tabKey))) = [False]"
  "handleKeypress detailExample (Some tabKey) = Inr (detailExample\<lparr>focusedPanel := LeftPanel\<rparr>, ActRender)"
  by code_simp+

text \<open>
  Claim C7 at a concrete input. In list mode with a file header selected, \<open>Tab\<close> returns
  the action \<open>none\<close>: the state is unchanged, the file stays expanded and nothing is
  rendered. The older dashboard of src/ui.ts collapses the file on the same key. In detail
  mode \<open>Tab\<close> moves the focus to the other panel and changes nothing else.
\<close>

theorem tab_in_list_mode_does_nothing:
  "mode (oneFileState ''x'' (-1)) = ListMode \<and>
   map expanded (files (oneFileState ''x'' (-1))) = [True] \<and>
   handleKeypress (oneFileState ''x'' (-1)) (Some tabKey) = Inr (oneFileState ''x'' (-1), ActNone) \<and>
   step exampleEnv (exampleSession (oneFileState ''x'' (-1))) (Keypress (Some tabKey)) =
     exampleSession (oneFileState ''x'' (-1)) \<and>
   map expanded (ui_files (fst (ui_handleKeypress uiOneFileState tabKey))) = [False] \<and>
   handleKeypress detailExample (Some tabKey) = Inr (detailExample\<lparr>focusedPanel := LeftPanel\<rparr>, ActRender)"
  using tab_list_eval by blast

lemma section_prompt_parsed:
  "p_aiPrompt (parseCommentMetadata sectionPromptContent) = ''Close the handle in a finally block.''"
  by code_simp

lemma section_prompt_not_copied: "copyPromptOf sectionPromptContent = None"
  by code_simp

lemma inline_prompt_parsed: "p_aiPrompt (parseCommentMetadata inlinePromptContent) = ''Close the handle.''"
  by code_simp

lemma inline_prompt_copied: "copyPromptOf inlinePromptContent = Some ''Close the handle.''"
  by code_simp

lemma copy_key_action:
  "handleKeypress (oneFileState raw sel) (Some cKey) = Inr (oneFileState raw sel, ActCopy)"
  by (simp add: handleKeypress_def quitBlock_def tabBlock_def navigateBlock_def
        arrowScrollBlock_def enterDetailBlock_def exitDetailBlock_def toggleExpandBlock_def
        pageScrollBlock_def copyBlock_def isUpKey_def isDownKey_def cKey_def oneFileState_def
        initialState_def)

lemma copy_key_step:
  "step exampleEnv (exampleSession (oneFileState raw sel)) (Keypress (Some cKey)) =
     doCopy (exampleSession (oneFileState raw sel))"
proof -
  have m: "handleMouse exampleEnv (exampleSession (oneFileState raw sel)) (Some cKey) = None"
    by (simp add: handleMouse_def cKey_def firstMatch_def mouseRe_def lit_def ESC_def)
  have e: "exampleSession (oneFileState raw sel)\<lparr>sess_state := oneFileState raw sel\<rparr> =
        exampleSession (oneFileState raw sel)"
    by (simp add: exampleSession_def)
  have x: "sess_state (exampleSession (oneFileState raw sel)) = oneFileState raw sel"
    "\<not> exited (exampleSession (oneFileState raw sel))"
    by (simp_all add: exampleSession_def)
  show ?thesis
    by (simp add: step_def onKeypress_def m copy_key_action e x)
qed

lemma doCopy_selected:
  "doCopy (exampleSession (oneFileState raw 0)) =
     (case copyPromptOf raw of
        None \<Rightarrow> exampleSession (oneFileState raw 0)
      | Some p \<Rightarrow> (exampleSession (oneFileState raw 0))\<lparr>clipboard := [p]\<rparr>)"
  by (simp add: doCopy_def Let_def oneFileState_def exampleSession_def js_index_def initialState_def
      split: option.splits)

lemma doCopy_header:
  "doCopy (exampleSession (oneFileState raw (-1))) = exampleSession (oneFileState raw (-1))"
  by (simp add: doCopy_def Let_def oneFileState_def exampleSession_def js_index_def initialState_def)

text \<open>
  Claim C6 at a concrete input. For a selected comment whose prompt is in the collapsible
  section, \<open>parseCommentMetadata\<close> extracts the prompt, but the copy key puts nothing on
  the clipboard: the handler of the session only matches the older inline marker. With
  the inline marker the prompt is copied and the state is unchanged; with the file header
  selected the key does nothing.
\<close>

theorem copy_key_misses_section_prompt:
  "selectedCommentIndex (oneFileState sectionPromptContent 0) = 0 \<and>
   p_aiPrompt (parseCommentMetadata sectionPromptContent) = ''Close the handle in a finally block.'' \<and>
   handleKeypress (oneFileState sectionPromptContent 0) (Some cKey) =
     Inr (oneFileState sectionPromptContent 0, ActCopy) \<and>
   copyPromptOf sectionPromptContent = None \<and>
   step exampleEnv (exampleSession (oneFileState sectionPromptContent 0)) (Keypress (Some cKey)) =
     exampleSession (oneFileState sectionPromptContent 0) \<and>
   clipboard (step exampleEnv (exampleSession (oneFileState sectionPromptContent 0))
     (Keypress (Some cKey))) = [] \<and>
   p_aiPrompt (parseCommentMetadata inlinePromptContent) = ''Close the handle.'' \<and>
   clipboard (step exampleEnv (exampleSession (oneFileState inlinePromptContent 0))
     (Keypress (Some cKey))) = [''Close the handle.''] \<and>
   sess_state (step exampleEnv (exampleSession (oneFileState inlinePromptContent 0))
     (Keypress (Some cKey))) = oneFileState inlinePromptContent 0 \<and>
   step exampleEnv (exampleSession (oneFileState inlinePromptContent (-1))) (Keypress (Some cKey)) =
     exampleSession (oneFileState inlinePromptContent (-1))"
proof -
  have 1: "selectedCommentIndex (oneFileState sectionPromptContent 0) = 0"
    by (simp add: oneFileState_def)
  have 2: "step exampleEnv (exampleSession (oneFileState sectionPromptContent 0)) (Keypress (Some cKey)) =
     exampleSession (oneFileState sectionPromptContent 0)"
    by (simp add: copy_key_step doCopy_selected section_prompt_not_copied)
  have 3: "clipboard (exampleSession (oneFileState sectionPromptContent 0)) = []"
    by (simp add: exampleSession_def)
  have 4: "step exampleEnv (exampleSession (oneFileState inlinePromptContent 0)) (Keypress (Some cKey)) =
     (exampleSession (oneFileState inlinePromptContent 0))\<lparr>clipboard := [''Close the handle.'']\<rparr>"
    by (simp add: copy_key_step doCopy_selected inline_prompt_copied)
  have 5: "sess_state ((exampleSession (oneFileState inlinePromptContent 0))\<lparr>clipboard := [''Close the handle.'']\<rparr>)
      = oneFileState inlinePromptContent 0"
    by (simp add: exampleSession_def)
  have 6: "step exampleEnv (exampleSession (oneFileState inlinePromptContent (-1))) (Keypress (Some cKey)) =
     exampleSession (oneFileState inlinePromptContent (-1))"
    by (simp add: copy_key_step doCopy_header)
  show ?thesis
    unfolding 2 4 6 5 3
    using 1 section_prompt_parsed section_prompt_not_copied inline_prompt_parsed copy_key_action
    by simp
qed

end
